theory Spec2Isabelle
  imports Main "HOL-Library.Word"
begin

section \<open>The OrganDigitalTwinFHE contract\<close>

text \<open>
  A shallow embedding of the Solidity contract \<^verbatim>\<open>OrganDigitalTwinFHE\<close>. Contract storage is
  a record that every function takes and returns; a \<^verbatim>\<open>require\<close> that fails, a panic and a
  reverting library call are values of the type \<open>error\<close>, and a transaction that reverts leaves
  the storage as it was (\<open>call\<close>).

  Solidity mappings have no notion of a missing key: an unwritten slot reads as the zero value of
  its type. They are total functions here, with the zero value everywhere in \<open>initial\<close>.
  \<^verbatim>\<open>uint256\<close> values are natural numbers; the one place where the contract computes with them,
  \<^verbatim>\<open>twinCount += 1\<close>, has the overflow check of Solidity 0.8 written out.
\<close>

subsection \<open>The confidential-computation library\<close>

text \<open>
  The contract imports \<^verbatim>\<open>FHE\<close>, \<^verbatim>\<open>euint32\<close> from \<^verbatim>\<open>@fhevm/solidity\<close>. An \<^verbatim>\<open>euint32\<close> is a handle:
  the zero handle is the uninitialised one, any other handle stands for a ciphertext. The model
  is the ideal functionality: a ciphertext is the plaintext it encrypts, \<open>None\<close> is the zero
  handle. The plaintext domain \<open>'c\<close> is left open: \<open>32 word\<close> is the deployed
  \<^verbatim>\<open>euint32\<close>, whose addition wraps around, \<open>nat\<close> is exact arithmetic.
\<close>

type_synonym 'c euint32 = "'c option"
type_synonym bytes = "8 word list"

definition asEuint32 :: "'c \<Rightarrow> 'c euint32" where
  "asEuint32 v = Some v"

definition isInitialized :: "'c euint32 \<Rightarrow> bool" where
  "isInitialized h = (h \<noteq> None)"

text \<open>\<^verbatim>\<open>FHE.add\<close> reads an uninitialised operand as an encryption of zero.\<close>

definition plain :: "'c::zero euint32 \<Rightarrow> 'c" where
  "plain h = (case h of None \<Rightarrow> 0 | Some v \<Rightarrow> v)"

definition fhe_add :: "'c::{zero,plus} euint32 \<Rightarrow> 'c euint32 \<Rightarrow> 'c euint32" where
  "fhe_add a b = Some (plain a + plain b)"

text \<open>
  What the contract cannot compute by itself is a parameter: the verification of the oracle's
  signatures (\<^verbatim>\<open>FHE.checkSignatures\<close>, which reverts when it fails), the two uses of
  \<^verbatim>\<open>abi.decode\<close> (which revert on bytes that do not encode a value of the type), and
  \<^verbatim>\<open>uint256(keccak256(abi.encodePacked(organType)))\<close>.
\<close>

record lib =
  checkSignatures :: "nat \<Rightarrow> bytes \<Rightarrow> bytes \<Rightarrow> bool"
  decodeStrings :: "bytes \<Rightarrow> string list option"
  decodeUint32 :: "bytes \<Rightarrow> 32 word option"
  keccak256 :: "string \<Rightarrow> nat"

subsection \<open>Storage\<close>

record 'c EncryptedOrganModel =
  twinId :: nat
  encryptedOrganType :: "'c euint32"
  encryptedPhysioData :: "'c euint32"
  encryptedGeneticMarkers :: "'c euint32"
  creationTime :: nat

record 'c EncryptedSimulationParams =
  encryptedDrugCompound :: "'c euint32"
  encryptedDosage :: "'c euint32"
  encryptedProcedureType :: "'c euint32"

record DecryptedSimulationResult =
  predictedEffect :: string
  riskAssessment :: string
  recommendedAdjustment :: string
  isRevealed :: bool

datatype event =
  TwinCreated nat nat
| SimulationRequested nat
| SimulationCompleted nat string

datatype selector = Sel_processSimulationResult | Sel_decryptOrganTypeCount

text \<open>
  Besides the contract's own variables the state holds the two logs a transaction appends to and
  a revert discards: the events emitted, and the decryption requests handed to the oracle, each
  with the request id the oracle answered with.
\<close>

record 'c state =
  twinCount :: nat
  encryptedOrganTwins :: "nat \<Rightarrow> 'c EncryptedOrganModel"
  encryptedSimulations :: "nat \<Rightarrow> 'c EncryptedSimulationParams"
  decryptedResults :: "nat \<Rightarrow> DecryptedSimulationResult"
  encryptedOrganTypeCount :: "string \<Rightarrow> 'c euint32"
  organTypeList :: "string list"
  requestToTwinId :: "nat \<Rightarrow> nat"
  events :: "event list"
  decryptionRequests :: "(nat \<times> 'c euint32 list \<times> selector) list"

datatype error =
  InvalidTwin
| UnknownRequest
| AlreadyRevealed
| InvalidProof
| UnknownCategory
| DecodeError
| ArithmeticOverflow
| IndexOutOfBounds
| DuplicateRequestId

definition uint256_max :: nat where
  "uint256_max = 2 ^ 256 - 1"

definition emptyResult :: DecryptedSimulationResult where
  "emptyResult = \<lparr>predictedEffect = [], riskAssessment = [], recommendedAdjustment = [],
     isRevealed = False\<rparr>"

definition initial :: "'c state" where
  "initial = \<lparr>twinCount = 0,
     encryptedOrganTwins = (\<lambda>_. \<lparr>twinId = 0, encryptedOrganType = None,
        encryptedPhysioData = None, encryptedGeneticMarkers = None, creationTime = 0\<rparr>),
     encryptedSimulations = (\<lambda>_. \<lparr>encryptedDrugCompound = None, encryptedDosage = None,
        encryptedProcedureType = None\<rparr>),
     decryptedResults = (\<lambda>_. emptyResult),
     encryptedOrganTypeCount = (\<lambda>_. None),
     organTypeList = [],
     requestToTwinId = (\<lambda>_. 0),
     events = [],
     decryptionRequests = []\<rparr>"

definition emit :: "event \<Rightarrow> 'c state \<Rightarrow> 'c state" where
  "emit e s = s\<lparr>events := events s @ [e]\<rparr>"

text \<open>
  \<^verbatim>\<open>FHE.requestDecryption(ciphertexts, selector)\<close> hands the handles to the oracle and returns
  the oracle's request id, \<open>reqId\<close>: an input of the model, chosen by the oracle.
\<close>

definition requestDecryption ::
  "'c euint32 list \<Rightarrow> selector \<Rightarrow> nat \<Rightarrow> 'c state \<Rightarrow> 'c state" where
  "requestDecryption ciphertexts sel reqId s =
     s\<lparr>decryptionRequests := decryptionRequests s @ [(reqId, ciphertexts, sel)]\<rparr>"

subsection \<open>Functions of the contract\<close>

text \<open>
  The modifier \<^verbatim>\<open>onlyAuthorizedDoctor\<close> has an empty body (a comment and the placeholder), so
  the functions that carry it run as if they did not. Parameters that share their name with a
  field of a struct are renamed (\<open>tid\<close> for \<^verbatim>\<open>twinId\<close>, a trailing \<open>H\<close> for a handle).
\<close>

definition createEncryptedTwin ::
  "'c state \<Rightarrow> 'c euint32 \<Rightarrow> 'c euint32 \<Rightarrow> 'c euint32 \<Rightarrow> nat \<Rightarrow> error + 'c state" where
  "createEncryptedTwin s organTypeH physioDataH geneticMarkersH timestamp =
     (if uint256_max \<le> twinCount s then Inl ArithmeticOverflow
      else
        let newId = twinCount s + 1 in
        Inr (emit (TwinCreated newId timestamp)
          (s\<lparr>twinCount := newId,
             encryptedOrganTwins := (encryptedOrganTwins s)(newId :=
               \<lparr>twinId = newId, encryptedOrganType = organTypeH,
                encryptedPhysioData = physioDataH,
                encryptedGeneticMarkers = geneticMarkersH, creationTime = timestamp\<rparr>),
             decryptedResults := (decryptedResults s)(newId := emptyResult)\<rparr>)))"

definition prepareSimulationData :: "'c state \<Rightarrow> nat \<Rightarrow> bool \<Rightarrow> 'c euint32 list" where
  "prepareSimulationData s tid isSurgery =
     (let model = encryptedOrganTwins s tid; params = encryptedSimulations s tid in
      [encryptedOrganType model, encryptedPhysioData model, encryptedGeneticMarkers model,
       if isSurgery then encryptedProcedureType params else encryptedDrugCompound params])"

definition requestDrugSimulation ::
  "'c::zero state \<Rightarrow> nat \<Rightarrow> 'c euint32 \<Rightarrow> 'c euint32 \<Rightarrow> nat \<Rightarrow> error + 'c state" where
  "requestDrugSimulation s tid drugCompoundH dosageH reqId =
     (if \<not> tid \<le> twinCount s then Inl InvalidTwin
      else
        let s1 = s\<lparr>encryptedSimulations := (encryptedSimulations s)(tid :=
                   \<lparr>encryptedDrugCompound = drugCompoundH, encryptedDosage = dosageH,
                    encryptedProcedureType = asEuint32 0\<rparr>)\<rparr>;
            ciphertexts = prepareSimulationData s1 tid False;
            s2 = requestDecryption ciphertexts Sel_processSimulationResult reqId s1;
            s3 = s2\<lparr>requestToTwinId := (requestToTwinId s2)(reqId := tid)\<rparr>
        in Inr (emit (SimulationRequested tid) s3))"

definition requestSurgerySimulation ::
  "'c::zero state \<Rightarrow> nat \<Rightarrow> 'c euint32 \<Rightarrow> nat \<Rightarrow> error + 'c state" where
  "requestSurgerySimulation s tid procedureTypeH reqId =
     (if \<not> tid \<le> twinCount s then Inl InvalidTwin
      else
        let s1 = s\<lparr>encryptedSimulations := (encryptedSimulations s)(tid :=
                   \<lparr>encryptedDrugCompound = asEuint32 0, encryptedDosage = asEuint32 0,
                    encryptedProcedureType = procedureTypeH\<rparr>)\<rparr>;
            ciphertexts = prepareSimulationData s1 tid True;
            s2 = requestDecryption ciphertexts Sel_processSimulationResult reqId s1;
            s3 = s2\<lparr>requestToTwinId := (requestToTwinId s2)(reqId := tid)\<rparr>
        in Inr (emit (SimulationRequested tid) s3))"

definition generatePrediction :: "string list \<Rightarrow> string" where
  "generatePrediction dat = ''Improved cardiac output by 15%''"

definition assessRisks :: "string list \<Rightarrow> string" where
  "assessRisks dat = ''Low risk of arrhythmia''"

definition suggestAdjustments :: "string list \<Rightarrow> string" where
  "suggestAdjustments dat = ''Reduce dosage by 20% for renal patients''"

definition updateOrganTypeStatistics ::
  "string \<Rightarrow> 'c::{zero,one,plus} state \<Rightarrow> 'c state" where
  "updateOrganTypeStatistics organType s =
     (let s1 = (if isInitialized (encryptedOrganTypeCount s organType) = False
                then s\<lparr>encryptedOrganTypeCount :=
                         (encryptedOrganTypeCount s)(organType := asEuint32 0),
                       organTypeList := organTypeList s @ [organType]\<rparr>
                else s)
      in s1\<lparr>encryptedOrganTypeCount := (encryptedOrganTypeCount s1)(organType :=
              fhe_add (encryptedOrganTypeCount s1 organType) (asEuint32 1))\<rparr>)"

text \<open>
  The writes through the storage pointer \<^verbatim>\<open>result\<close> come before \<^verbatim>\<open>simulationData[0]\<close>, which
  panics on an empty array; the revert then discards them.
\<close>

definition processSimulationResult ::
  "lib \<Rightarrow> 'c::{zero,one,plus} state \<Rightarrow> nat \<Rightarrow> bytes \<Rightarrow> bytes \<Rightarrow> error + 'c state" where
  "processSimulationResult L s requestId cleartexts prf =
     (let tid = requestToTwinId s requestId in
      if \<not> tid \<noteq> 0 then Inl UnknownRequest
      else
        let result = decryptedResults s tid in
        if \<not> \<not> isRevealed result then Inl AlreadyRevealed
        else if \<not> checkSignatures L requestId cleartexts prf then Inl InvalidProof
        else
          case decodeStrings L cleartexts of
            None \<Rightarrow> Inl DecodeError
          | Some simulationData \<Rightarrow>
              let result' = result\<lparr>predictedEffect := generatePrediction simulationData,
                               riskAssessment := assessRisks simulationData,
                               recommendedAdjustment := suggestAdjustments simulationData,
                               isRevealed := True\<rparr>;
                  s1 = s\<lparr>decryptedResults := (decryptedResults s)(tid := result')\<rparr>
              in (case simulationData of
                    [] \<Rightarrow> Inl IndexOutOfBounds
                  | organType # _ \<Rightarrow>
                      Inr (emit (SimulationCompleted tid (riskAssessment result'))
                             (updateOrganTypeStatistics organType s1))))"

definition getSimulationResult ::
  "'c state \<Rightarrow> nat \<Rightarrow> string \<times> string \<times> string \<times> bool" where
  "getSimulationResult s tid =
     (let r = decryptedResults s tid in
      (predictedEffect r, riskAssessment r, recommendedAdjustment r, isRevealed r))"

definition requestOrganTypeCountDecryption ::
  "lib \<Rightarrow> 'c state \<Rightarrow> string \<Rightarrow> nat \<Rightarrow> error + 'c state" where
  "requestOrganTypeCountDecryption L s organType reqId =
     (let count = encryptedOrganTypeCount s organType in
      if \<not> isInitialized count then Inl UnknownCategory
      else
        let s1 = requestDecryption [count] Sel_decryptOrganTypeCount reqId s in
        Inr (s1\<lparr>requestToTwinId := (requestToTwinId s1)(reqId := keccak256 L organType)\<rparr>))"

text \<open>The loop of \<^verbatim>\<open>getOrganTypeFromHash\<close> over \<^verbatim>\<open>organTypeList\<close>, first match wins.\<close>

fun findOrganType :: "lib \<Rightarrow> string list \<Rightarrow> nat \<Rightarrow> error + string" where
  "findOrganType L [] h = Inl UnknownCategory"
| "findOrganType L (x # xs) h = (if keccak256 L x = h then Inr x else findOrganType L xs h)"

definition getOrganTypeFromHash :: "lib \<Rightarrow> 'c state \<Rightarrow> nat \<Rightarrow> error + string" where
  "getOrganTypeFromHash L s h = findOrganType L (organTypeList s) h"

definition decryptOrganTypeCount ::
  "lib \<Rightarrow> 'c state \<Rightarrow> nat \<Rightarrow> bytes \<Rightarrow> bytes \<Rightarrow> error + 'c state" where
  "decryptOrganTypeCount L s requestId cleartexts prf =
     (let organTypeHash = requestToTwinId s requestId in
      case getOrganTypeFromHash L s organTypeHash of
        Inl e \<Rightarrow> Inl e
      | Inr organType \<Rightarrow>
          if \<not> checkSignatures L requestId cleartexts prf then Inl InvalidProof
          else (case decodeUint32 L cleartexts of
                  None \<Rightarrow> Inl DecodeError
                | Some count \<Rightarrow> Inr s))"

subsection \<open>Transactions\<close>

text \<open>
  One constructor per public function that changes state, with the function's arguments and
  what the environment contributes to the call: \<^verbatim>\<open>block.timestamp\<close> for a creation, the
  oracle's request id for a request.
\<close>

datatype 'c op =
  CreateEncryptedTwin "'c euint32" "'c euint32" "'c euint32" nat
| RequestDrugSimulation nat "'c euint32" "'c euint32" nat
| RequestSurgerySimulation nat "'c euint32" nat
| ProcessSimulationResult nat bytes bytes
| RequestOrganTypeCountDecryption string nat
| DecryptOrganTypeCount nat bytes bytes

fun exec :: "lib \<Rightarrow> 'c::{zero,one,plus} state \<Rightarrow> 'c op \<Rightarrow> error + 'c state" where
  "exec L s (CreateEncryptedTwin a b c t) = createEncryptedTwin s a b c t"
| "exec L s (RequestDrugSimulation tid d g r) = requestDrugSimulation s tid d g r"
| "exec L s (RequestSurgerySimulation tid p r) = requestSurgerySimulation s tid p r"
| "exec L s (ProcessSimulationResult r c p) = processSimulationResult L s r c p"
| "exec L s (RequestOrganTypeCountDecryption organType r) =
     requestOrganTypeCountDecryption L s organType r"
| "exec L s (DecryptOrganTypeCount r c p) = decryptOrganTypeCount L s r c p"

text \<open>A transaction either commits the state its function returns or reverts to the old one.\<close>

definition call :: "lib \<Rightarrow> 'c::{zero,one,plus} state \<Rightarrow> 'c op \<Rightarrow> 'c state" where
  "call L s x = (case exec L s x of Inl e \<Rightarrow> s | Inr s' \<Rightarrow> s')"

fun run :: "lib \<Rightarrow> 'c::{zero,one,plus} state \<Rightarrow> 'c op list \<Rightarrow> 'c state" where
  "run L s [] = s"
| "run L s (x # xs) = run L (call L s x) xs"

subsection \<open>Observations on runs\<close>

text \<open>The request id an operation writes into \<^verbatim>\<open>requestToTwinId\<close>, if it writes one.\<close>

fun registers :: "'c op \<Rightarrow> nat option" where
  "registers (RequestDrugSimulation tid d g r) = Some r"
| "registers (RequestSurgerySimulation tid p r) = Some r"
| "registers (RequestOrganTypeCountDecryption organType r) = Some r"
| "registers (CreateEncryptedTwin a b c t) = None"
| "registers (ProcessSimulationResult r c p) = None"
| "registers (DecryptOrganTypeCount r c p) = None"

text \<open>The ids announced by the \<^verbatim>\<open>TwinCreated\<close> events of a log, oldest first.\<close>

fun createdIds :: "event list \<Rightarrow> nat list" where
  "createdIds [] = []"
| "createdIds (TwinCreated i t # es) = i # createdIds es"
| "createdIds (SimulationRequested i # es) = createdIds es"
| "createdIds (SimulationCompleted i txt # es) = createdIds es"

text \<open>
  \<open>reveals L s x t\<close>: in state \<open>s\<close> the transaction \<open>x\<close> is a callback
  \<^verbatim>\<open>processSimulationResult\<close> that resolves to twin \<open>t\<close> and succeeds.
  \<open>revealCount\<close> counts such transactions along a run.
\<close>

fun reveals :: "lib \<Rightarrow> 'c::{zero,one,plus} state \<Rightarrow> 'c op \<Rightarrow> nat \<Rightarrow> bool" where
  "reveals L s (ProcessSimulationResult r c p) t =
     (requestToTwinId s r = t \<and> \<not> isl (processSimulationResult L s r c p))"
| "reveals L s (CreateEncryptedTwin a b c ts) t = False"
| "reveals L s (RequestDrugSimulation tid d g r) t = False"
| "reveals L s (RequestSurgerySimulation tid p r) t = False"
| "reveals L s (RequestOrganTypeCountDecryption organType r) t = False"
| "reveals L s (DecryptOrganTypeCount r c p) t = False"

fun revealCount :: "lib \<Rightarrow> 'c::{zero,one,plus} state \<Rightarrow> 'c op list \<Rightarrow> nat \<Rightarrow> nat" where
  "revealCount L s [] t = 0"
| "revealCount L s (x # xs) t =
     (if reveals L s x t then 1 else 0) + revealCount L (call L s x) xs t"

subsection \<open>Request ids and the library\<close>

text \<open>
  The contract writes \<^verbatim>\<open>requestToTwinId[reqId]\<close> without looking at the entry: whether a request
  id can come twice is decided by \<^verbatim>\<open>FHE.requestDecryption\<close>, which returns the id and belongs to
  the library \<^verbatim>\<open>@fhevm/solidity\<close>, not to the sources at hand. The functions above take the id
  the library returns as it comes; the definitions of this subsection add what the
  specification says of it.
\<close>






subsection \<open>A scenario\<close>

text \<open>
  The scenario of the specification, on exact arithmetic: two twins are created, a drug
  simulation is requested for twin 1 and the oracle answers with request id 7; then the callback
  for 7 arrives with a valid proof and cleartexts that start with the organ type \<open>heart\<close>; then
  the count of \<open>heart\<close> is requested (request id 8). The library of the scenario accepts the
  proof \<open>[1]\<close> only and decodes every non-empty byte string.
\<close>

definition scenarioLib :: lib where
  "scenarioLib = \<lparr>checkSignatures = (\<lambda>r c p. p = [1]),
     decodeStrings = (\<lambda>c. if c = [] then None else Some [''heart'']),
     decodeUint32 = (\<lambda>c. if c = [] then None else Some 1),
     keccak256 = (\<lambda>x. 1000 + length x)\<rparr>"

definition pendingState :: "nat state" where
  "pendingState = run scenarioLib initial
     [CreateEncryptedTwin (Some 11) (Some 12) (Some 13) 100,
      CreateEncryptedTwin (Some 21) (Some 22) (Some 23) 200,
      RequestDrugSimulation 1 (Some 4) (Some 5) 7]"

definition revealedState :: "nat state" where
  "revealedState = call scenarioLib pendingState (ProcessSimulationResult 7 [2] [1])"

definition countRequestedState :: "nat state" where
  "countRequestedState =
     call scenarioLib revealedState (RequestOrganTypeCountDecryption ''heart'' 8)"

section \<open>Basic facts\<close>

subsection \<open>Frames of the auxiliary functions\<close>

lemma updateOrganTypeStatistics_frame [simp]:
  "twinCount (updateOrganTypeStatistics c s) = twinCount s"
  "decryptedResults (updateOrganTypeStatistics c s) = decryptedResults s"
  "requestToTwinId (updateOrganTypeStatistics c s) = requestToTwinId s"
  "events (updateOrganTypeStatistics c s) = events s"
  "decryptionRequests (updateOrganTypeStatistics c s) = decryptionRequests s"
  "encryptedOrganTwins (updateOrganTypeStatistics c s) = encryptedOrganTwins s"
  "encryptedSimulations (updateOrganTypeStatistics c s) = encryptedSimulations s"
  by (simp_all add: updateOrganTypeStatistics_def Let_def)

lemma emit_frame [simp]:
  "twinCount (emit e s) = twinCount s"
  "decryptedResults (emit e s) = decryptedResults s"
  "requestToTwinId (emit e s) = requestToTwinId s"
  "encryptedOrganTypeCount (emit e s) = encryptedOrganTypeCount s"
  "organTypeList (emit e s) = organTypeList s"
  "encryptedOrganTwins (emit e s) = encryptedOrganTwins s"
  "encryptedSimulations (emit e s) = encryptedSimulations s"
  "decryptionRequests (emit e s) = decryptionRequests s"
  "events (emit e s) = events s @ [e]"
  by (simp_all add: emit_def)

lemma requestDecryption_frame [simp]:
  "twinCount (requestDecryption cs sel r s) = twinCount s"
  "decryptedResults (requestDecryption cs sel r s) = decryptedResults s"
  "requestToTwinId (requestDecryption cs sel r s) = requestToTwinId s"
  "encryptedOrganTypeCount (requestDecryption cs sel r s) = encryptedOrganTypeCount s"
  "organTypeList (requestDecryption cs sel r s) = organTypeList s"
  "encryptedOrganTwins (requestDecryption cs sel r s) = encryptedOrganTwins s"
  "encryptedSimulations (requestDecryption cs sel r s) = encryptedSimulations s"
  "events (requestDecryption cs sel r s) = events s"
  "decryptionRequests (requestDecryption cs sel r s) = decryptionRequests s @ [(r, cs, sel)]"
  by (simp_all add: requestDecryption_def)

text \<open>The counter of a category after one blind increment, whether it was initialised or not.\<close>

lemma updateOrganTypeStatistics_count:
  "encryptedOrganTypeCount (updateOrganTypeStatistics c s) =
     (encryptedOrganTypeCount s)(c := Some (plain (encryptedOrganTypeCount s c) + 1))"
  by (cases "encryptedOrganTypeCount s c")
     (simp_all add: updateOrganTypeStatistics_def isInitialized_def asEuint32_def fhe_add_def
        plain_def Let_def)

subsection \<open>What a successful call has done\<close>

lemma processSimulationResult_Inr:
  assumes "processSimulationResult L s r c p = Inr s'"
  obtains d ds where
    "requestToTwinId s r \<noteq> 0"
    "\<not> isRevealed (decryptedResults s (requestToTwinId s r))"
    "checkSignatures L r c p"
    "decodeStrings L c = Some (d # ds)"
    "s' = emit (SimulationCompleted (requestToTwinId s r) (assessRisks (d # ds)))
            (updateOrganTypeStatistics d
              (s\<lparr>decryptedResults := (decryptedResults s)(requestToTwinId s r :=
                   (decryptedResults s (requestToTwinId s r))
                     \<lparr>predictedEffect := generatePrediction (d # ds),
                      riskAssessment := assessRisks (d # ds),
                      recommendedAdjustment := suggestAdjustments (d # ds),
                      isRevealed := True\<rparr>)\<rparr>))"
  using assms
  by (auto simp: processSimulationResult_def Let_def
        split: if_splits option.splits list.splits)

lemma createEncryptedTwin_Inr:
  "createEncryptedTwin s a b c ts = Inr s' \<Longrightarrow>
     twinCount s < uint256_max \<and>
     s' = emit (TwinCreated (twinCount s + 1) ts)
          (s\<lparr>twinCount := twinCount s + 1,
             encryptedOrganTwins := (encryptedOrganTwins s)(twinCount s + 1 :=
               \<lparr>twinId = twinCount s + 1, encryptedOrganType = a,
                encryptedPhysioData = b,
                encryptedGeneticMarkers = c, creationTime = ts\<rparr>),
             decryptedResults := (decryptedResults s)(twinCount s + 1 := emptyResult)\<rparr>)"
  by (auto simp: createEncryptedTwin_def Let_def split: if_splits)

lemma decryptOrganTypeCount_Inr:
  "decryptOrganTypeCount L s r c p = Inr s' \<Longrightarrow> s' = s"
  by (auto simp: decryptOrganTypeCount_def Let_def
        split: sum.splits if_splits option.splits)

lemma exec_Inr_call: "\<not> isl (exec L s x) \<Longrightarrow> exec L s x = Inr (call L s x)"
  by (cases "exec L s x") (simp_all add: call_def)

lemma exec_Inl_call: "isl (exec L s x) \<Longrightarrow> call L s x = s"
  by (cases "exec L s x") (simp_all add: call_def)

lemmas request_defs = requestDrugSimulation_def requestSurgerySimulation_def
  requestOrganTypeCountDecryption_def Let_def

subsection \<open>The scenario, evaluated\<close>

lemma uint256_max_small:
  "n \<le> 1000 \<Longrightarrow> (uint256_max \<le> n) = False"
  "n \<le> 1000 \<Longrightarrow> n < uint256_max"
  "0 < uint256_max"
  "(uint256_max = 0) = False"
  by (simp_all add: uint256_max_def)

lemmas contract_defs = createEncryptedTwin_def requestDrugSimulation_def
  requestSurgerySimulation_def processSimulationResult_def requestOrganTypeCountDecryption_def
  decryptOrganTypeCount_def getOrganTypeFromHash_def updateOrganTypeStatistics_def
  prepareSimulationData_def requestDecryption_def emit_def asEuint32_def isInitialized_def
  fhe_add_def plain_def emptyResult_def generatePrediction_def
  assessRisks_def suggestAdjustments_def getSimulationResult_def call_def Let_def

lemma pendingState_fields:
  "twinCount pendingState = 2"
  "requestToTwinId pendingState = (\<lambda>_. 0)(7 := 1)"
  "decryptedResults pendingState t = emptyResult"
  "encryptedOrganTypeCount pendingState = (\<lambda>_. None)"
  "organTypeList pendingState = []"
  by (simp_all add: pendingState_def scenarioLib_def initial_def uint256_max_small contract_defs)

lemma revealedState_fields:
  "twinCount revealedState = 2"
  "requestToTwinId revealedState = (\<lambda>_. 0)(7 := 1)"
  "decryptedResults revealedState t = (if t = 1 then
     \<lparr>predictedEffect = ''Improved cardiac output by 15%'',
      riskAssessment = ''Low risk of arrhythmia'',
      recommendedAdjustment = ''Reduce dosage by 20% for renal patients'',
      isRevealed = True\<rparr> else emptyResult)"
  "encryptedOrganTypeCount revealedState = (\<lambda>_. None)(''heart'' := Some 1)"
  "organTypeList revealedState = [''heart'']"
  by (simp_all add: revealedState_def pendingState_fields scenarioLib_def contract_defs)

lemma countRequestedState_fields:
  "twinCount countRequestedState = 2"
  "requestToTwinId countRequestedState = (\<lambda>_. 0)(7 := 1, 8 := 1005)"
  "encryptedOrganTypeCount countRequestedState = (\<lambda>_. None)(''heart'' := Some 1)"
  "organTypeList countRequestedState = [''heart'']"
  by (simp_all add: countRequestedState_def revealedState_fields scenarioLib_def contract_defs)

lemma scenario_callback:
  "exec scenarioLib pendingState (ProcessSimulationResult 7 [2] [1]) = Inr revealedState"
  unfolding revealedState_def
  by (rule exec_Inr_call)
     (simp add: processSimulationResult_def pendingState_fields scenarioLib_def emptyResult_def)

lemma scenario_count_callback:
  "decryptOrganTypeCount scenarioLib countRequestedState 8 [2] [1] = Inr countRequestedState"
  by (simp add: decryptOrganTypeCount_def getOrganTypeFromHash_def countRequestedState_fields
        scenarioLib_def)

section \<open>The callback of a simulation\<close>

text \<open>
  C4. A callback \<^verbatim>\<open>processSimulationResult\<close> that fails a validation step aborts with the error
  of that step: \<open>UnknownRequest\<close> when the request id resolves to no twin, \<open>AlreadyRevealed\<close>
  when the twin's result is revealed, \<open>InvalidProof\<close> when the signatures do not verify; and a
  callback that fails, for whatever reason, leaves the whole state as it was, so it neither sets
  a revealed flag nor increments a counter.
\<close>

theorem processSimulationResult_validation:
  "(requestToTwinId s r = 0 \<longrightarrow>
      exec L s (ProcessSimulationResult r c p) = Inl UnknownRequest) \<and>
   (requestToTwinId s r \<noteq> 0 \<and> isRevealed (decryptedResults s (requestToTwinId s r)) \<longrightarrow>
      exec L s (ProcessSimulationResult r c p) = Inl AlreadyRevealed) \<and>
   (requestToTwinId s r \<noteq> 0 \<and> \<not> isRevealed (decryptedResults s (requestToTwinId s r)) \<and>
    \<not> checkSignatures L r c p \<longrightarrow>
      exec L s (ProcessSimulationResult r c p) = Inl InvalidProof) \<and>
   (isl (exec L s (ProcessSimulationResult r c p)) \<longrightarrow>
      call L s (ProcessSimulationResult r c p) = s \<and>
      decryptedResults (call L s (ProcessSimulationResult r c p)) = decryptedResults s \<and>
      encryptedOrganTypeCount (call L s (ProcessSimulationResult r c p)) =
        encryptedOrganTypeCount s)"
  by (simp add: processSimulationResult_def exec_Inl_call)

theorem processSimulationResult_validation_witness:
  "requestToTwinId pendingState 99 = 0 \<and>
   exec scenarioLib pendingState (ProcessSimulationResult 99 [2] [1]) = Inl UnknownRequest \<and>
   call scenarioLib pendingState (ProcessSimulationResult 99 [2] [1]) = pendingState \<and>
   requestToTwinId revealedState 7 \<noteq> 0 \<and>
   isRevealed (decryptedResults revealedState (requestToTwinId revealedState 7)) \<and>
   exec scenarioLib revealedState (ProcessSimulationResult 7 [2] [1]) = Inl AlreadyRevealed \<and>
   call scenarioLib revealedState (ProcessSimulationResult 7 [2] [1]) = revealedState \<and>
   requestToTwinId pendingState 7 \<noteq> 0 \<and>
   \<not> isRevealed (decryptedResults pendingState (requestToTwinId pendingState 7)) \<and>
   \<not> checkSignatures scenarioLib 7 [2] [0] \<and>
   exec scenarioLib pendingState (ProcessSimulationResult 7 [2] [0]) = Inl InvalidProof \<and>
   call scenarioLib pendingState (ProcessSimulationResult 7 [2] [0]) = pendingState"
  using processSimulationResult_validation [of pendingState 99 scenarioLib "[2]" "[1]"]
    processSimulationResult_validation [of revealedState 7 scenarioLib "[2]" "[1]"]
    processSimulationResult_validation [of pendingState 7 scenarioLib "[2]" "[0]"]
  by (simp add: pendingState_fields revealedState_fields emptyResult_def scenarioLib_def)

text \<open>
  C10. Whatever cleartexts a successful callback carries, the result it stores holds the same
  three texts: the three predictor functions are constant.
\<close>

theorem processSimulationResult_constant_texts:
  "generatePrediction dat = ''Improved cardiac output by 15%'' \<and>
   assessRisks dat = ''Low risk of arrhythmia'' \<and>
   suggestAdjustments dat = ''Reduce dosage by 20% for renal patients'' \<and>
   (processSimulationResult L s r c p = Inr s' \<longrightarrow>
      getSimulationResult s' (requestToTwinId s r) =
        (''Improved cardiac output by 15%'', ''Low risk of arrhythmia'',
         ''Reduce dosage by 20% for renal patients'', True))"
  by (auto elim!: processSimulationResult_Inr
        simp: generatePrediction_def assessRisks_def suggestAdjustments_def
          getSimulationResult_def)

theorem processSimulationResult_constant_texts_witness:
  "processSimulationResult scenarioLib pendingState 7 [2] [1] = Inr revealedState \<and>
   getSimulationResult revealedState (requestToTwinId pendingState 7) =
     (''Improved cardiac output by 15%'', ''Low risk of arrhythmia'',
      ''Reduce dosage by 20% for renal patients'', True)"
  using processSimulationResult_constant_texts
    [of "[]" scenarioLib pendingState 7 "[2]" "[1]" revealedState] scenario_callback
  by simp

section \<open>The request tracker\<close>

text \<open>
  C3, as the specification states it, fails: in the scenario the callback for request 7
  succeeds, and afterwards 7 maps to twin 1 as before.
\<close>

theorem tracker_entry_survives_callback:
  "exec scenarioLib pendingState (ProcessSimulationResult 7 [2] [1]) = Inr revealedState \<and>
   requestToTwinId pendingState 7 = 1 \<and> requestToTwinId revealedState 7 = 1"
  using scenario_callback by (simp add: pendingState_fields revealedState_fields)

text \<open>
  C3, amended. A successful callback leaves \<^verbatim>\<open>requestToTwinId\<close> as it was, the entry of its own
  request id included. A simulation request is consumed through the revealed flag of its twin
  only: the same callback, with any cleartexts and proof, then fails with \<open>AlreadyRevealed\<close>. A
  count request is not consumed: the same callback succeeds again.
\<close>

theorem callback_keeps_tracker:
  "(processSimulationResult L s r c p = Inr s' \<longrightarrow>
      requestToTwinId s' = requestToTwinId s \<and> requestToTwinId s' r \<noteq> 0 \<and>
      processSimulationResult L s' r c' p' = Inl AlreadyRevealed) \<and>
   (decryptOrganTypeCount L u q d e = Inr u' \<longrightarrow>
      requestToTwinId u' = requestToTwinId u \<and>
      decryptOrganTypeCount L u' q d e = Inr u')"
proof -
  have "requestToTwinId s' = requestToTwinId s \<and> requestToTwinId s' r \<noteq> 0 \<and>
      processSimulationResult L s' r c' p' = Inl AlreadyRevealed"
    if "processSimulationResult L s r c p = Inr s'"
    using that by (elim processSimulationResult_Inr) (simp add: processSimulationResult_def)
  moreover have "requestToTwinId u' = requestToTwinId u \<and>
      decryptOrganTypeCount L u' q d e = Inr u'"
    if "decryptOrganTypeCount L u q d e = Inr u'"
    using that decryptOrganTypeCount_Inr [OF that] by simp
  ultimately show ?thesis by blast
qed

theorem callback_keeps_tracker_witness:
  "processSimulationResult scenarioLib pendingState 7 [2] [1] = Inr revealedState \<and>
   requestToTwinId revealedState = requestToTwinId pendingState \<and>
   processSimulationResult scenarioLib revealedState 7 [3] [1] = Inl AlreadyRevealed \<and>
   decryptOrganTypeCount scenarioLib countRequestedState 8 [2] [1] = Inr countRequestedState \<and>
   requestToTwinId countRequestedState 8 = 1005"
  using callback_keeps_tracker [of scenarioLib pendingState 7 "[2]" "[1]" revealedState
      "[3]" "[1]" countRequestedState 8 "[2]" "[1]" countRequestedState]
    scenario_callback scenario_count_callback
  by (simp add: countRequestedState_fields)

text \<open>
  C9. A successful callback \<^verbatim>\<open>decryptOrganTypeCount\<close> leaves the encrypted counter of every
  category as it was; it writes nothing at all.
\<close>

theorem decryptOrganTypeCount_read_only:
  "decryptOrganTypeCount L s r c p = Inr s' \<Longrightarrow>
     (\<forall>organType. encryptedOrganTypeCount s' organType = encryptedOrganTypeCount s organType)
     \<and> s' = s"
  using decryptOrganTypeCount_Inr [of L s r c p s'] by simp

theorem decryptOrganTypeCount_read_only_witness:
  "decryptOrganTypeCount scenarioLib countRequestedState 8 [2] [1] = Inr countRequestedState \<and>
   encryptedOrganTypeCount countRequestedState ''heart'' = Some 1"
  using decryptOrganTypeCount_read_only
    [of scenarioLib countRequestedState 8 "[2]" "[1]" countRequestedState]
    scenario_count_callback
  by (simp add: countRequestedState_fields)

section \<open>The encrypted counters\<close>

lemma plain_simps [simp]: "plain None = 0" "plain (Some v) = v"
  by (simp_all add: plain_def)

lemma funpow_count:
  fixes s :: "'c::semiring_1 state"
  shows "plain (encryptedOrganTypeCount ((updateOrganTypeStatistics c ^^ n) s) c) =
     plain (encryptedOrganTypeCount s c) + of_nat n"
  by (induction n) (simp_all add: updateOrganTypeStatistics_count ac_simps)

lemma funpow_initialised:
  "0 < n \<Longrightarrow> isInitialized (encryptedOrganTypeCount ((updateOrganTypeStatistics c ^^ n) s) c)"
  by (cases n) (simp_all add: updateOrganTypeStatistics_count isInitialized_def)

lemma fold_count:
  fixes s :: "'c::semiring_1 state"
  shows "plain (encryptedOrganTypeCount (fold updateOrganTypeStatistics cs s) c) =
     plain (encryptedOrganTypeCount s c) + of_nat (count_list cs c)"
  by (induction cs arbitrary: s) (simp_all add: updateOrganTypeStatistics_count ac_simps)

text \<open>
  On the deployed plaintext domain, 32-bit words, the same counter holds the number of
  increments modulo \<open>2 ^ 32\<close>.
\<close>

lemma funpow_count_euint32:
  fixes s :: "32 word state"
  assumes "\<not> isInitialized (encryptedOrganTypeCount s c)"
  shows "unat (plain (encryptedOrganTypeCount ((updateOrganTypeStatistics c ^^ n) s) c)) =
     n mod 2 ^ 32"
  using assms by (simp add: funpow_count isInitialized_def unat_of_nat)

text \<open>
  C6. On exact arithmetic (the plaintext domain is \<open>nat\<close>), \<open>N\<close> blind increments of a fresh
  category leave a counter that decrypts to \<open>N\<close>; so do \<open>N\<close> increments interleaved with
  increments of other categories, since an increment of one category leaves the counter of every
  other category as it was.
\<close>

theorem blindIncrement_counts:
  "\<not> isInitialized (encryptedOrganTypeCount (s :: nat state) c) \<Longrightarrow>
     plain (encryptedOrganTypeCount ((updateOrganTypeStatistics c ^^ N) s) c) = N \<and>
     (0 < N \<longrightarrow>
        encryptedOrganTypeCount ((updateOrganTypeStatistics c ^^ N) s) c = asEuint32 N) \<and>
     plain (encryptedOrganTypeCount (fold updateOrganTypeStatistics cs s) c) = count_list cs c \<and>
     (c' \<noteq> c \<longrightarrow>
        encryptedOrganTypeCount (updateOrganTypeStatistics c' (u :: nat state)) c =
          encryptedOrganTypeCount u c)"
proof -
  assume fresh: "\<not> isInitialized (encryptedOrganTypeCount s c)"
  let ?k = "encryptedOrganTypeCount ((updateOrganTypeStatistics c ^^ N) s) c"
  have zero: "plain (encryptedOrganTypeCount s c) = 0"
    using fresh by (simp add: isInitialized_def)
  have dec: "plain ?k = N"
    using funpow_count [where c = c and n = N and s = s] zero by simp
  have "?k = asEuint32 N" if "0 < N"
    using funpow_initialised [OF that, of c s] dec
    by (cases ?k) (simp_all add: isInitialized_def asEuint32_def)
  moreover have "plain (encryptedOrganTypeCount (fold updateOrganTypeStatistics cs s) c) =
      count_list cs c"
    using fold_count [where cs = cs and s = s and c = c] zero by simp
  moreover have "encryptedOrganTypeCount (updateOrganTypeStatistics c' u) c =
      encryptedOrganTypeCount u c" if "c' \<noteq> c"
    using that by (simp add: updateOrganTypeStatistics_count)
  ultimately show ?thesis using dec by blast
qed

theorem blindIncrement_counts_witness:
  "\<not> isInitialized (encryptedOrganTypeCount (initial :: nat state) ''liver'') \<and>
   encryptedOrganTypeCount
     ((updateOrganTypeStatistics ''liver'' ^^ 2) (initial :: nat state)) ''liver'' = Some 2 \<and>
   plain (encryptedOrganTypeCount
     (fold updateOrganTypeStatistics [''liver'', ''heart'', ''liver''] (initial :: nat state))
     ''liver'') = 2 \<and>
   encryptedOrganTypeCount (updateOrganTypeStatistics ''heart'' revealedState) ''liver'' =
     encryptedOrganTypeCount revealedState ''liver''"
  using blindIncrement_counts [of initial "''liver''" 2 "[''liver'', ''heart'', ''liver'']"
      "''heart''" revealedState]
  by (simp add: initial_def isInitialized_def asEuint32_def)

section \<open>Twin ids\<close>

lemma createdIds_append: "createdIds (es @ es') = createdIds es @ createdIds es'"
  by (induction es rule: createdIds.induct) simp_all

text \<open>In a state reached from the initial one the ids announced so far are \<open>1, \<dots>, twinCount\<close>.\<close>

lemma call_createdIds:
  assumes "createdIds (events s) = [1..<Suc (twinCount s)]"
  shows "createdIds (events (call L s x)) = [1..<Suc (twinCount (call L s x))]"
proof (cases "exec L s x")
  case (Inl e)
  then show ?thesis using assms by (simp add: call_def)
next
  case (Inr s')
  then have "createdIds (events s') = [1..<Suc (twinCount s')]"
  proof (cases x)
    case (CreateEncryptedTwin a b c ts)
    with Inr assms show ?thesis
      by (auto dest!: createEncryptedTwin_Inr simp: createdIds_append)
  next
    case (ProcessSimulationResult r c p)
    with Inr assms show ?thesis
      by (auto elim!: processSimulationResult_Inr simp: createdIds_append)
  next
    case (DecryptOrganTypeCount r c p)
    with Inr assms show ?thesis
      by (auto dest!: decryptOrganTypeCount_Inr)
  qed (use Inr assms in \<open>auto simp: request_defs createdIds_append split: if_splits\<close>)
  with Inr show ?thesis by (simp add: call_def)
qed

lemma run_createdIds:
  "createdIds (events s) = [1..<Suc (twinCount s)] \<Longrightarrow>
     createdIds (events (run L s xs)) = [1..<Suc (twinCount (run L s xs))]"
  by (induction xs arbitrary: s) (simp_all add: call_createdIds)

lemma getSimulationResult_empty:
  "getSimulationResult s t = ([], [], [], False) \<longleftrightarrow> decryptedResults s t = emptyResult"
  by (cases "decryptedResults s t") (auto simp: getSimulationResult_def emptyResult_def)

text \<open>
  C7. Along any run from the initial state the ids that \<^verbatim>\<open>createEncryptedTwin\<close> has assigned, in
  the order of the calls, are strictly increasing, pairwise distinct and positive. A call
  succeeds unless the counter has reached the largest \<^verbatim>\<open>uint256\<close>; it then assigns the id
  \<open>twinCount + 1\<close>, stores under it the three handles with the creation time, and sets the
  result of that id to three empty texts, not revealed.
\<close>

theorem createEncryptedTwin_ids:
  "sorted_wrt (<) (createdIds (events (run L (initial :: 'c::{zero,one,plus} state) xs))) \<and>
   distinct (createdIds (events (run L initial xs))) \<and>
   (\<forall>i \<in> set (createdIds (events (run L initial xs))). 0 < i) \<and>
   (twinCount s < uint256_max \<longrightarrow> \<not> isl (createEncryptedTwin s a b c ts)) \<and>
   (createEncryptedTwin (s :: 'c state) a b c ts = Inr s' \<longrightarrow>
      twinCount s' = twinCount s + 1 \<and>
      createdIds (events s') = createdIds (events s) @ [twinCount s'] \<and>
      encryptedOrganTwins s' (twinCount s') =
        \<lparr>twinId = twinCount s', encryptedOrganType = a, encryptedPhysioData = b,
         encryptedGeneticMarkers = c, creationTime = ts\<rparr> \<and>
      getSimulationResult s' (twinCount s') = ([], [], [], False))"
proof -
  have "createdIds (events (run L initial xs)) = [1..<Suc (twinCount (run L initial xs))]"
    by (rule run_createdIds) (simp add: initial_def)
  then have "sorted_wrt (<) (createdIds (events (run L initial xs))) \<and>
      distinct (createdIds (events (run L initial xs))) \<and>
      (\<forall>i \<in> set (createdIds (events (run L initial xs))). 0 < i)"
    by (simp del: upt_Suc)
  moreover have "\<not> isl (createEncryptedTwin s a b c ts)" if "twinCount s < uint256_max"
    using that by (simp add: createEncryptedTwin_def)
  moreover have "twinCount s' = twinCount s + 1 \<and>
      createdIds (events s') = createdIds (events s) @ [twinCount s'] \<and>
      encryptedOrganTwins s' (twinCount s') =
        \<lparr>twinId = twinCount s', encryptedOrganType = a, encryptedPhysioData = b,
         encryptedGeneticMarkers = c, creationTime = ts\<rparr> \<and>
      getSimulationResult s' (twinCount s') = ([], [], [], False)"
    if "createEncryptedTwin s a b c ts = Inr s'"
    using createEncryptedTwin_Inr [OF that]
    by (simp add: createdIds_append getSimulationResult_empty)
  ultimately show ?thesis by blast
qed

lemma pendingState_events:
  "events pendingState = [TwinCreated 1 100, TwinCreated 2 200, SimulationRequested 1]"
  by (simp add: pendingState_def scenarioLib_def initial_def uint256_max_small contract_defs)

theorem createEncryptedTwin_ids_witness:
  "createdIds (events pendingState) = [1, 2] \<and>
   sorted_wrt (<) (createdIds (events pendingState)) \<and>
   distinct (createdIds (events pendingState)) \<and>
   twinCount pendingState < uint256_max \<and>
   \<not> isl (createEncryptedTwin pendingState (Some 31) (Some 32) (Some 33) 300) \<and>
   twinCount (call scenarioLib pendingState
     (CreateEncryptedTwin (Some 31) (Some 32) (Some 33) 300)) = 3 \<and>
   getSimulationResult (call scenarioLib pendingState
     (CreateEncryptedTwin (Some 31) (Some 32) (Some 33) 300)) 3 = ([], [], [], False)"
proof -
  let ?x = "CreateEncryptedTwin (Some 31) (Some 32) (Some 33) 300"
  have ok: "\<not> isl (exec scenarioLib pendingState ?x)"
    by (simp add: createEncryptedTwin_def pendingState_fields uint256_max_small)
  have step: "createEncryptedTwin pendingState (Some 31) (Some 32) (Some 33) 300 =
      Inr (call scenarioLib pendingState ?x)"
    using exec_Inr_call [OF ok] by simp
  show ?thesis
    using step pendingState_events
      createEncryptedTwin_ids [of scenarioLib
        "[CreateEncryptedTwin (Some 11) (Some 12) (Some 13) 100,
          CreateEncryptedTwin (Some 21) (Some 22) (Some 23) 200,
          RequestDrugSimulation 1 (Some 4) (Some 5) 7]"
        pendingState "Some 31" "Some 32" "Some 33" 300 "call scenarioLib pendingState ?x",
        folded pendingState_def]
    by (auto simp: pendingState_fields uint256_max_small)
qed

section \<open>Requests for a simulation\<close>


text \<open>
  C5 at twin id 0, which \<^verbatim>\<open>createEncryptedTwin\<close> never assigns: on the freshly deployed contract
  both request functions accept it, hand four handles to the oracle (the three of the unwritten
  twin record and the new one) and register the request id for twin 0.
\<close>

theorem requestSimulation_accepts_twin_zero:
  "twinCount (initial :: nat state) = 0 \<and>
   \<not> isl (exec scenarioLib (initial :: nat state) (RequestDrugSimulation 0 (Some 4) (Some 5) 7)) \<and>
   decryptionRequests
     (call scenarioLib (initial :: nat state) (RequestDrugSimulation 0 (Some 4) (Some 5) 7)) =
     [(7, [None, None, None, Some 4], Sel_processSimulationResult)] \<and>
   \<not> isl (exec scenarioLib (initial :: nat state) (RequestSurgerySimulation 0 (Some 6) 8)) \<and>
   decryptionRequests
     (call scenarioLib (initial :: nat state) (RequestSurgerySimulation 0 (Some 6) 8)) =
     [(8, [None, None, None, Some 6], Sel_processSimulationResult)]"
  by (simp add: initial_def call_def request_defs prepareSimulationData_def
        requestDecryption_def emit_def)

section \<open>Runs\<close>

subsection \<open>What a transaction preserves\<close>

lemma exec_twinCount_mono: "exec L s x = Inr s' \<Longrightarrow> twinCount s \<le> twinCount s'"
proof (cases x)
  case (CreateEncryptedTwin a b c ts)
  then show "exec L s x = Inr s' \<Longrightarrow> ?thesis"
    by (auto dest!: createEncryptedTwin_Inr)
next
  case (ProcessSimulationResult r c p)
  then show "exec L s x = Inr s' \<Longrightarrow> ?thesis"
    by (auto elim!: processSimulationResult_Inr)
next
  case (DecryptOrganTypeCount r c p)
  then show "exec L s x = Inr s' \<Longrightarrow> ?thesis"
    by (auto dest!: decryptOrganTypeCount_Inr)
qed (auto simp: request_defs split: if_splits)

lemma call_twinCount_mono: "twinCount s \<le> twinCount (call L s x)"
  by (cases "exec L s x") (simp_all add: call_def exec_twinCount_mono)

text \<open>The result of an allocated twin id, once revealed, stays revealed.\<close>

lemma exec_revealed_kept:
  "exec L s x = Inr s' \<Longrightarrow> t \<le> twinCount s \<Longrightarrow> isRevealed (decryptedResults s t)
     \<Longrightarrow> isRevealed (decryptedResults s' t)"
proof (cases x)
  case (CreateEncryptedTwin a b c ts)
  then show "exec L s x = Inr s' \<Longrightarrow> t \<le> twinCount s \<Longrightarrow>
      isRevealed (decryptedResults s t) \<Longrightarrow> ?thesis"
    by (auto dest!: createEncryptedTwin_Inr)
next
  case (ProcessSimulationResult r c p)
  then show "exec L s x = Inr s' \<Longrightarrow> t \<le> twinCount s \<Longrightarrow>
      isRevealed (decryptedResults s t) \<Longrightarrow> ?thesis"
    by (auto elim!: processSimulationResult_Inr)
next
  case (DecryptOrganTypeCount r c p)
  then show "exec L s x = Inr s' \<Longrightarrow> t \<le> twinCount s \<Longrightarrow>
      isRevealed (decryptedResults s t) \<Longrightarrow> ?thesis"
    by (auto dest!: decryptOrganTypeCount_Inr)
qed (auto simp: request_defs split: if_splits)

lemma call_revealed_kept:
  "t \<le> twinCount s \<Longrightarrow> isRevealed (decryptedResults s t)
     \<Longrightarrow> isRevealed (decryptedResults (call L s x) t)"
  by (cases "exec L s x") (simp_all add: call_def exec_revealed_kept)

lemma run_revealed_kept:
  "t \<le> twinCount s \<Longrightarrow> isRevealed (decryptedResults s t)
     \<Longrightarrow> isRevealed (decryptedResults (run L s xs) t)"
proof (induction xs arbitrary: s)
  case Nil
  then show ?case by simp
next
  case (Cons x xs)
  have "t \<le> twinCount (call L s x)"
    using Cons.prems(1) call_twinCount_mono [of s L x] by simp
  then show ?case
    using Cons by (simp add: call_revealed_kept)
qed

text \<open>Only an operation that registers a request id writes the tracker entry of that id.\<close>

lemma call_tracker:
  "registers x \<noteq> Some r \<Longrightarrow> requestToTwinId (call L s x) r = requestToTwinId s r"
proof (cases "exec L s x")
  case (Inl e)
  then show ?thesis by (simp add: call_def)
next
  case (Inr s')
  assume other: "registers x \<noteq> Some r"
  have "requestToTwinId s' r = requestToTwinId s r"
  proof (cases x)
    case (CreateEncryptedTwin a b c ts)
    with Inr show ?thesis by (auto dest!: createEncryptedTwin_Inr)
  next
    case (ProcessSimulationResult q c p)
    with Inr show ?thesis by (auto elim!: processSimulationResult_Inr)
  next
    case (DecryptOrganTypeCount q c p)
    with Inr show ?thesis by (auto dest!: decryptOrganTypeCount_Inr)
  qed (use Inr other in \<open>auto simp: request_defs split: if_splits\<close>)
  with Inr show ?thesis by (simp add: call_def)
qed

lemma run_tracker:
  "\<forall>x \<in> set xs. registers x \<noteq> Some r \<Longrightarrow>
     requestToTwinId (run L s xs) r = requestToTwinId s r"
  by (induction xs arbitrary: s) (simp_all add: call_tracker)

subsection \<open>Successful callbacks along a run\<close>

lemma reveals_flips:
  assumes "reveals L s x t"
  shows "\<not> isRevealed (decryptedResults s t)" "isRevealed (decryptedResults (call L s x) t)"
proof -
  from assms obtain r c p where x: "x = ProcessSimulationResult r c p"
    and tgt: "requestToTwinId s r = t" and ok: "\<not> isl (processSimulationResult L s r c p)"
    by (cases x) auto
  from ok obtain s' where s': "processSimulationResult L s r c p = Inr s'"
    by (cases "processSimulationResult L s r c p") auto
  from s' tgt show "\<not> isRevealed (decryptedResults s t)"
    by (auto elim!: processSimulationResult_Inr)
  from s' tgt x show "isRevealed (decryptedResults (call L s x) t)"
    by (auto elim!: processSimulationResult_Inr simp: call_def)
qed

lemma not_reveals_keeps_result:
  assumes "\<not> reveals L s x t" "decryptedResults s t = emptyResult"
  shows "decryptedResults (call L s x) t = emptyResult"
proof (cases "exec L s x")
  case (Inl e)
  then show ?thesis using assms by (simp add: call_def)
next
  case (Inr s')
  have "decryptedResults s' t = emptyResult"
  proof (cases x)
    case (CreateEncryptedTwin a b c ts)
    with Inr assms show ?thesis by (auto dest!: createEncryptedTwin_Inr)
  next
    case (ProcessSimulationResult r c p)
    with Inr assms have "requestToTwinId s r \<noteq> t" by auto
    with Inr assms ProcessSimulationResult show ?thesis
      by (auto elim!: processSimulationResult_Inr)
  next
    case (DecryptOrganTypeCount r c p)
    with Inr assms show ?thesis by (auto dest!: decryptOrganTypeCount_Inr)
  qed (use Inr assms in \<open>auto simp: request_defs split: if_splits\<close>)
  with Inr show ?thesis by (simp add: call_def)
qed

lemma run_unrevealed_empty:
  "revealCount L s xs t = 0 \<Longrightarrow> decryptedResults s t = emptyResult
     \<Longrightarrow> decryptedResults (run L s xs) t = emptyResult"
proof (induction xs arbitrary: s)
  case Nil
  then show ?case by simp
next
  case (Cons x xs)
  from Cons.prems(1) have quiet: "\<not> reveals L s x t"
    and rest: "revealCount L (call L s x) xs t = 0"
    by (auto split: if_splits)
  show ?case
    using Cons.IH [OF rest not_reveals_keeps_result [OF quiet Cons.prems(2)]] by simp
qed

lemma revealCount_revealed:
  "t \<le> twinCount s \<Longrightarrow> isRevealed (decryptedResults s t) \<Longrightarrow> revealCount L s xs t = 0"
proof (induction xs arbitrary: s)
  case Nil
  then show ?case by simp
next
  case (Cons x xs)
  have quiet: "\<not> reveals L s x t"
    using reveals_flips(1) [of L s x t] Cons.prems(2) by blast
  have "t \<le> twinCount (call L s x)"
    using Cons.prems(1) call_twinCount_mono [of s L x] by simp
  then have "revealCount L (call L s x) xs t = 0"
    using Cons.prems by (intro Cons.IH call_revealed_kept)
  with quiet show ?case by simp
qed

lemma revealCount_le_1: "t \<le> twinCount s \<Longrightarrow> revealCount L s xs t \<le> 1"
proof (induction xs arbitrary: s)
  case Nil
  then show ?case by simp
next
  case (Cons x xs)
  have later: "t \<le> twinCount (call L s x)"
    using Cons.prems call_twinCount_mono [of s L x] by simp
  show ?case
  proof (cases "reveals L s x t")
    case True
    then have "revealCount L (call L s x) xs t = 0"
      using later reveals_flips(2) [of L s x t] by (intro revealCount_revealed)
    with True show ?thesis by simp
  next
    case False
    with Cons.IH [OF later] show ?thesis by simp
  qed
qed

section \<open>Unknown and resolved request ids\<close>

text \<open>
  C1, as the specification states it, fails on a resolved request id: in the scenario the
  callback for request 7 succeeds, and the same callback once more fails with \<open>AlreadyRevealed\<close>,
  not with \<open>UnknownRequest\<close>.
\<close>

theorem resolved_request_not_unknown:
  "exec scenarioLib pendingState (ProcessSimulationResult 7 [2] [1]) = Inr revealedState \<and>
   exec scenarioLib revealedState (ProcessSimulationResult 7 [2] [1]) = Inl AlreadyRevealed \<and>
   exec scenarioLib revealedState (ProcessSimulationResult 7 [2] [1]) \<noteq> Inl UnknownRequest"
  using scenario_callback
  by (simp add: processSimulationResult_def revealedState_fields)

text \<open>
  C1, amended. A callback whose request id has no entry in the tracker fails with
  \<open>UnknownRequest\<close> and changes nothing; so does, after any run from the initial state, a
  callback whose request id no operation of the run has registered. A callback whose request id
  an earlier successful callback has resolved fails with \<open>AlreadyRevealed\<close> and changes nothing:
  right after that callback, and also after any further operations that do not register the id
  again, when the twin it resolved to is an allocated one.
\<close>

theorem callback_unknown_or_resolved:
  "(requestToTwinId (s :: 'c::{zero,one,plus} state) r = 0 \<longrightarrow>
      exec L s (ProcessSimulationResult r c p) = Inl UnknownRequest \<and>
      call L s (ProcessSimulationResult r c p) = s) \<and>
   ((\<forall>x \<in> set xs. registers x \<noteq> Some r) \<longrightarrow>
      exec L (run L (initial :: 'c state) xs) (ProcessSimulationResult r c p) =
        Inl UnknownRequest \<and>
      call L (run L (initial :: 'c state) xs) (ProcessSimulationResult r c p) =
        run L initial xs) \<and>
   (exec L (u :: 'c state) (ProcessSimulationResult q d e) = Inr u' \<longrightarrow>
      exec L u' (ProcessSimulationResult q c p) = Inl AlreadyRevealed \<and>
      call L u' (ProcessSimulationResult q c p) = u') \<and>
   (exec L u (ProcessSimulationResult q d e) = Inr u' \<and> requestToTwinId u q \<le> twinCount u \<and>
    (\<forall>x \<in> set ys. registers x \<noteq> Some q) \<longrightarrow>
      exec L (run L u' ys) (ProcessSimulationResult q c p) = Inl AlreadyRevealed \<and>
      call L (run L u' ys) (ProcessSimulationResult q c p) = run L u' ys)"
proof -
  have unknown: "exec L v (ProcessSimulationResult k c p) = Inl UnknownRequest \<and>
      call L v (ProcessSimulationResult k c p) = v"
    if "requestToTwinId v k = 0" for v :: "'c state" and k
    using that by (simp add: processSimulationResult_def call_def)
  have revealed: "exec L v (ProcessSimulationResult k c p) = Inl AlreadyRevealed \<and>
      call L v (ProcessSimulationResult k c p) = v"
    if "requestToTwinId v k \<noteq> 0" "isRevealed (decryptedResults v (requestToTwinId v k))"
    for v :: "'c state" and k
    using that by (simp add: processSimulationResult_def call_def)
  have a: "exec L (run L (initial :: 'c state) xs) (ProcessSimulationResult r c p) =
        Inl UnknownRequest \<and>
      call L (run L (initial :: 'c state) xs) (ProcessSimulationResult r c p) =
        run L initial xs"
    if "\<forall>x \<in> set xs. registers x \<noteq> Some r"
  proof (rule unknown)
    show "requestToTwinId (run L (initial :: 'c state) xs) r = 0"
      using run_tracker [OF that, of L initial] by (simp add: initial_def)
  qed
  have after: "requestToTwinId u' q = requestToTwinId u q \<and> requestToTwinId u q \<noteq> 0 \<and>
      isRevealed (decryptedResults u' (requestToTwinId u q)) \<and> twinCount u' = twinCount u"
    if "exec L u (ProcessSimulationResult q d e) = Inr u'"
    using that by (auto elim!: processSimulationResult_Inr)
  have b: "exec L u' (ProcessSimulationResult q c p) = Inl AlreadyRevealed \<and>
      call L u' (ProcessSimulationResult q c p) = u'"
    if "exec L u (ProcessSimulationResult q d e) = Inr u'"
  proof (rule revealed)
    show "requestToTwinId u' q \<noteq> 0"
      using after [OF that] by simp
    show "isRevealed (decryptedResults u' (requestToTwinId u' q))"
      using after [OF that] by simp
  qed
  have c: "exec L (run L u' ys) (ProcessSimulationResult q c p) = Inl AlreadyRevealed \<and>
      call L (run L u' ys) (ProcessSimulationResult q c p) = run L u' ys"
    if ok: "exec L u (ProcessSimulationResult q d e) = Inr u'"
      and alloc: "requestToTwinId u q \<le> twinCount u"
      and quiet: "\<forall>x \<in> set ys. registers x \<noteq> Some q"
  proof (rule revealed)
    have same: "requestToTwinId (run L u' ys) q = requestToTwinId u q"
      using run_tracker [OF quiet, of L u'] after [OF ok] by simp
    then show "requestToTwinId (run L u' ys) q \<noteq> 0"
      using after [OF ok] by simp
    have "isRevealed (decryptedResults (run L u' ys) (requestToTwinId u q))"
    proof (rule run_revealed_kept)
      show "requestToTwinId u q \<le> twinCount u'"
        using after [OF ok] alloc by simp
      show "isRevealed (decryptedResults u' (requestToTwinId u q))"
        using after [OF ok] by simp
    qed
    then show "isRevealed (decryptedResults (run L u' ys) (requestToTwinId (run L u' ys) q))"
      by (simp add: same)
  qed
  from unknown [of s r] a b c show ?thesis by blast
qed

theorem callback_unknown_or_resolved_witness:
  "requestToTwinId pendingState 99 = 0 \<and>
   exec scenarioLib pendingState (ProcessSimulationResult 99 [2] [1]) = Inl UnknownRequest \<and>
   exec scenarioLib
     (run scenarioLib (initial :: nat state)
        [CreateEncryptedTwin (Some 11) (Some 12) (Some 13) 100])
     (ProcessSimulationResult 7 [2] [1]) = Inl UnknownRequest \<and>
   exec scenarioLib pendingState (ProcessSimulationResult 7 [2] [1]) = Inr revealedState \<and>
   requestToTwinId pendingState 7 \<le> twinCount pendingState \<and>
   exec scenarioLib revealedState (ProcessSimulationResult 7 [3] [1]) = Inl AlreadyRevealed \<and>
   exec scenarioLib
     (run scenarioLib revealedState [RequestOrganTypeCountDecryption ''heart'' 8])
     (ProcessSimulationResult 7 [3] [1]) = Inl AlreadyRevealed"
  using scenario_callback
    callback_unknown_or_resolved [of pendingState 99 scenarioLib "[3]" "[1]"
      "[CreateEncryptedTwin (Some 11) (Some 12) (Some 13) 100]" pendingState 7 "[2]" "[1]"
      revealedState "[RequestOrganTypeCountDecryption ''heart'' 8]"]
    callback_unknown_or_resolved [of pendingState 99 scenarioLib "[2]" "[1]"
      "[CreateEncryptedTwin (Some 11) (Some 12) (Some 13) 100]" pendingState 7 "[2]" "[1]"
      revealedState "[RequestOrganTypeCountDecryption ''heart'' 8]"]
    callback_unknown_or_resolved [of pendingState 7 scenarioLib "[2]" "[1]"
      "[CreateEncryptedTwin (Some 11) (Some 12) (Some 13) 100]" pendingState 7 "[2]" "[1]"
      revealedState "[RequestOrganTypeCountDecryption ''heart'' 8]"]
  by (simp add: pendingState_fields)

section \<open>The revealed flag\<close>

text \<open>
  C2. The result of every twin id is unrevealed with three empty texts in the initial state and
  right after \<^verbatim>\<open>createEncryptedTwin\<close> has assigned the id; it stays so along any run in which no
  callback for that twin succeeds. For an allocated twin id at most one callback succeeds along
  any run, whatever the operations of the run are; and once its result is revealed it is
  revealed after every run, and no further callback for it succeeds.
\<close>

theorem revealed_once:
  "getSimulationResult (initial :: 'c::{zero,one,plus} state) t = ([], [], [], False) \<and>
   (createEncryptedTwin (s :: 'c state) a b c ts = Inr s' \<longrightarrow>
      getSimulationResult s' (twinCount s') = ([], [], [], False)) \<and>
   (getSimulationResult (u :: 'c state) t = ([], [], [], False) \<and> revealCount L u xs t = 0 \<longrightarrow>
      getSimulationResult (run L u xs) t = ([], [], [], False)) \<and>
   (t \<le> twinCount u \<longrightarrow> revealCount L u xs t \<le> 1) \<and>
   (t \<le> twinCount u \<and> isRevealed (decryptedResults u t) \<longrightarrow>
      isRevealed (decryptedResults (run L u xs) t) \<and> revealCount L u xs t = 0)"
proof -
  have "getSimulationResult (initial :: 'c state) t = ([], [], [], False)"
    by (simp add: getSimulationResult_empty initial_def)
  moreover have "getSimulationResult s' (twinCount s') = ([], [], [], False)"
    if "createEncryptedTwin s a b c ts = Inr s'"
    using createEncryptedTwin_Inr [OF that] by (simp add: getSimulationResult_empty)
  moreover have "getSimulationResult (run L u xs) t = ([], [], [], False)"
    if "getSimulationResult u t = ([], [], [], False)" "revealCount L u xs t = 0"
    using that by (simp add: getSimulationResult_empty run_unrevealed_empty)
  moreover have "revealCount L u xs t \<le> 1" if "t \<le> twinCount u"
    using that by (rule revealCount_le_1)
  moreover have "isRevealed (decryptedResults (run L u xs) t) \<and> revealCount L u xs t = 0"
    if "t \<le> twinCount u" "isRevealed (decryptedResults u t)"
    using that by (simp add: run_revealed_kept revealCount_revealed)
  ultimately show ?thesis by blast
qed

theorem revealed_once_witness:
  "getSimulationResult pendingState 1 = ([], [], [], False) \<and>
   revealCount scenarioLib pendingState [ProcessSimulationResult 7 [2] [0]] 1 = 0 \<and>
   getSimulationResult (run scenarioLib pendingState [ProcessSimulationResult 7 [2] [0]]) 1 =
     ([], [], [], False) \<and>
   (1::nat) \<le> twinCount pendingState \<and>
   revealCount scenarioLib pendingState
     [ProcessSimulationResult 7 [2] [1], ProcessSimulationResult 7 [2] [1]] 1 = 1 \<and>
   (1::nat) \<le> twinCount revealedState \<and> isRevealed (decryptedResults revealedState 1) \<and>
   isRevealed (decryptedResults
     (run scenarioLib revealedState
        [CreateEncryptedTwin (Some 31) (Some 32) (Some 33) 300,
         RequestSurgerySimulation 1 (Some 6) 9, ProcessSimulationResult 9 [2] [1]]) 1) \<and>
   \<not> isl (createEncryptedTwin pendingState (Some 31) (Some 32) (Some 33) 300) \<and>
   getSimulationResult
     (call scenarioLib pendingState (CreateEncryptedTwin (Some 31) (Some 32) (Some 33) 300)) 3 =
     ([], [], [], False)"
proof -
  let ?x = "CreateEncryptedTwin (Some 31) (Some 32) (Some 33) 300"
  have ok: "\<not> isl (exec scenarioLib pendingState ?x)"
    by (simp add: createEncryptedTwin_def pendingState_fields uint256_max_small)
  have step: "createEncryptedTwin pendingState (Some 31) (Some 32) (Some 33) 300 =
      Inr (call scenarioLib pendingState ?x)"
    using exec_Inr_call [OF ok] by simp
  have three: "twinCount (call scenarioLib pendingState ?x) = 3"
    using createEncryptedTwin_Inr [OF step] by (simp add: pendingState_fields)
  have count: "revealCount scenarioLib pendingState
      [ProcessSimulationResult 7 [2] [1], ProcessSimulationResult 7 [2] [1]] 1 = 1"
    using scenario_callback
    by (simp add: revealedState_def [symmetric] pendingState_fields revealedState_fields
          processSimulationResult_def)
  show ?thesis
    using step three count
      revealed_once [of 1 pendingState "Some 31" "Some 32" "Some 33" 300
        "call scenarioLib pendingState ?x" pendingState scenarioLib
        "[ProcessSimulationResult 7 [2] [0]]"]
      revealed_once [of 1 pendingState "Some 31" "Some 32" "Some 33" 300
        "call scenarioLib pendingState ?x" revealedState scenarioLib
        "[CreateEncryptedTwin (Some 31) (Some 32) (Some 33) 300,
          RequestSurgerySimulation 1 (Some 6) 9, ProcessSimulationResult 9 [2] [1]]"]
    by (auto simp: pendingState_fields revealedState_fields getSimulationResult_empty
          processSimulationResult_def scenarioLib_def)
qed

section \<open>Duplicate request ids\<close>















end
